theory Spec2Isabelle
  imports Main "HOL-Library.Sublist"
begin

section \<open>Data model of \<^verbatim>\<open>packages/hydrooj/src/handler/misc.ts\<close>\<close>

text \<open>
  The handlers of \<^verbatim>\<open>misc.ts\<close> are embedded as functions on explicit state. Every
  \<^verbatim>\<open>throw\<close> is a value \<open>Inl e\<close>. The collaborators the file imports (the storage
  engine, the identity store, the handler base class, the hash) are not part of the
  file: the storage engine and the pure helpers are parameters of the handlers, the
  identity store and the privilege check are modelled from the specification.
\<close>

text \<open>Modelled from the spec: the privilege flags of \<^verbatim>\<open>PRIV\<close> that \<^verbatim>\<open>misc.ts\<close> names
  (\<^verbatim>\<open>model/builtin\<close> is not part of the sources).\<close>

datatype priv = PRIV_USER_PROFILE | PRIV_CREATE_FILE | PRIV_UNLIMITED_QUOTA | PRIV_EDIT_SYSTEM

text \<open>The error classes thrown in \<^verbatim>\<open>misc.ts\<close>. \<open>PrivilegeError\<close> is what
  \<^verbatim>\<open>checkPriv\<close> raises, \<open>Error\<close> is the plain JavaScript \<^verbatim>\<open>Error\<close>, \<open>TypeError\<close> is
  raised by a method call on \<^verbatim>\<open>undefined\<close>, \<open>StorageError\<close> stands for a failure
  reported by the storage engine.\<close>

datatype error =
    BadRequestError string
  | ForbiddenError string
  | NotFoundError int
  | ValidationError string "string option"
  | PrivilegeError priv
  | Error string
  | TypeError
  | StorageError string

text \<open>What \<^verbatim>\<open>storage.getMeta\<close> returns when it returns metadata.\<close>

record meta =
  m_size :: nat
  m_lastModified :: nat
  m_etag :: string

text \<open>An entry of \<^verbatim>\<open>_files\<close>: \<^verbatim>\<open>{ _id, name, size, lastModified, etag }\<close>.\<close>

record file_record =
  f_id :: string
  f_name :: string
  f_size :: nat
  f_lastModified :: nat
  f_etag :: string

text \<open>A principal. \<open>u_files = None\<close> is an \<^verbatim>\<open>undefined\<close> \<^verbatim>\<open>_files\<close> field, which the
  source guards against with \<^verbatim>\<open>?.\<close> and \<^verbatim>\<open>|| []\<close> in some places.\<close>

record user =
  u_id :: int
  u_priv :: "priv set"
  u_files :: "file_record list option"

text \<open>\<^verbatim>\<open>request.files.file\<close>: the temporary local file of an upload.\<close>

record upload_file =
  filepath :: string
  originalFilename :: "string option"

text \<open>The configuration values read through \<^verbatim>\<open>system.get\<close> and \<^verbatim>\<open>builtinConfig\<close>.\<close>

record config =
  limit_user_files :: nat
  limit_user_files_size :: nat
  file_secret :: string

text \<open>The storage collaborator, by the interface \<^verbatim>\<open>misc.ts\<close> uses. \<open>'st\<close> is the
  state of the engine, \<open>'b\<close> the type of object contents. A write reports an optional
  failure together with the state it leaves; \<^verbatim>\<open>getMeta\<close> returns \<^verbatim>\<open>null\<close> as \<open>None\<close>.\<close>

record ('st, 'b) storage_ops =
  storage_put :: "string \<Rightarrow> string \<Rightarrow> int \<Rightarrow> 'st \<Rightarrow> error option \<times> 'st"
  storage_getMeta :: "string \<Rightarrow> 'st \<Rightarrow> meta option"
  storage_get :: "string \<Rightarrow> 'st \<Rightarrow> error + 'b"
  storage_del :: "string list \<Rightarrow> int \<Rightarrow> 'st \<Rightarrow> error option \<times> 'st"
  storage_signDownloadLink :: "string \<Rightarrow> string option \<Rightarrow> bool \<Rightarrow> string \<Rightarrow> string"

text \<open>The state outside a handler: the identity store, the storage engine and the
  operation log.\<close>

record 'st world =
  users :: "int \<rightharpoonup> user"
  store :: 'st
  oplog :: "(string \<times> string \<times> nat) list"

datatype ack = Back

datatype files_body = Fragments "string list" | Files "file_record list"

record files_response =
  fr_template :: string
  fr_body :: files_body

record download_response =
  dr_headers :: "(string \<times> string) list"
  dr_redirect :: string

record 'b storage_response =
  sr_body :: 'b
  sr_type :: string
  sr_disposition :: "string option"

section \<open>Helpers\<close>

text \<open>Template literals render an integer in decimal (JavaScript changes to exponent
  notation only from \<open>10 ^ 21\<close> on, beyond every identifier and timestamp).\<close>

definition digit :: "nat \<Rightarrow> char" where
  "digit d = ''0123456789'' ! d"

fun decimal :: "nat \<Rightarrow> string" where
  "decimal n = (if n < 10 then [digit n] else decimal (n div 10) @ [digit (n mod 10)])"

declare decimal.simps [simp del]

definition number_to_string :: "int \<Rightarrow> string" where
  "number_to_string i = (if 0 \<le> i then decimal (nat i) else CHR ''-'' # decimal (nat (- i)))"

text \<open>\<^verbatim>\<open>s.includes(t)\<close> and \<^verbatim>\<open>s.endsWith(t)\<close>.\<close>

definition str_includes :: "string \<Rightarrow> string \<Rightarrow> bool" where
  "str_includes s t = sublist t s"

definition endsWith :: "string \<Rightarrow> string \<Rightarrow> bool" where
  "endsWith s t = suffix t s"

text \<open>Modelled from the spec: \<^verbatim>\<open>Math.sum\<close>, an extension of \<^verbatim>\<open>utils\<close> that is not part of
  the sources; the aggregate size is the sum over the existing sizes.\<close>

definition Math_sum :: "nat list \<Rightarrow> nat" where
  "Math_sum xs = sum_list xs"

text \<open>Modelled from the spec: \<^verbatim>\<open>user.hasPriv\<close> and \<^verbatim>\<open>Handler.checkPriv\<close> (the user model
  and the handler base class are not part of the sources): a principal has a privilege
  set, and requiring a privilege it lacks fails with a permission error.\<close>

definition hasPriv :: "user \<Rightarrow> priv \<Rightarrow> bool" where
  "hasPriv u p = (p \<in> u_priv u)"

definition checkPriv :: "user \<Rightarrow> priv \<Rightarrow> error option" where
  "checkPriv u p = (if hasPriv u p then None else Some (PrivilegeError p))"

text \<open>Modelled from the spec: the identity store (\<^verbatim>\<open>model/user\<close> is not part of the
  sources). \<^verbatim>\<open>getById(realm, id)\<close> returns the principal or \<^verbatim>\<open>null\<close>;
  \<^verbatim>\<open>setById(id, { _files })\<close> overwrites the whole \<^verbatim>\<open>_files\<close> field of that principal.\<close>

definition getById :: "(int \<rightharpoonup> user) \<Rightarrow> string \<Rightarrow> int \<Rightarrow> user option" where
  "getById us realm uid = us uid"

definition setById_files :: "(int \<rightharpoonup> user) \<Rightarrow> int \<Rightarrow> file_record list \<Rightarrow> (int \<rightharpoonup> user)" where
  "setById_files us uid fs =
     (case us uid of None \<Rightarrow> us | Some d \<Rightarrow> us(uid \<mapsto> d\<lparr>u_files := Some fs\<rparr>))"

text \<open>The storage path \<^verbatim>\<open>`user/${uid}/${filename}`\<close>.\<close>

definition user_path :: "int \<Rightarrow> string \<Rightarrow> string" where
  "user_path uid filename = ''user/'' @ number_to_string uid @ ''/'' @ filename"

section \<open>\<^verbatim>\<open>StorageHandler.get\<close> (lines 121 to 130)\<close>

text \<open>Line 122: the fingerprint the endpoint expects. \<open>md5\<close> is the hash of \<^verbatim>\<open>utils\<close>,
  a parameter here.\<close>

definition expected_secret :: "(string \<Rightarrow> string) \<Rightarrow> config \<Rightarrow> string \<Rightarrow> nat \<Rightarrow> string" where
  "expected_secret md5 cfg target expire =
     md5 (target @ ''/'' @ decimal expire @ ''/'' @ file_secret cfg)"

text \<open>Lines 125 to 129: the answer once both checks have passed. \<open>lookup\<close> is the
  \<^verbatim>\<open>mime-types\<close> lookup (\<open>None\<close> for \<^verbatim>\<open>false\<close>), \<open>enc\<close> is \<^verbatim>\<open>encodeRFC5987ValueChars\<close>.\<close>

definition storage_respond ::
  "('st, 'b) storage_ops \<Rightarrow> (string \<Rightarrow> string option) \<Rightarrow> (string \<Rightarrow> string) \<Rightarrow>
   string \<Rightarrow> string \<Rightarrow> 'st \<Rightarrow> error + 'b storage_response" where
  "storage_respond S lookup enc target filename st =
     (case storage_get S target st of
        Inl e \<Rightarrow> Inl e
      | Inr bytes \<Rightarrow>
          Inr \<lparr> sr_body = bytes,
                sr_type =
                  (if endsWith target ''.out'' \<or> endsWith target ''.ans'' then ''text/plain''
                   else (case lookup target of
                           Some t \<Rightarrow> (if t = [] then ''application/octet-stream'' else t)
                         | None \<Rightarrow> ''application/octet-stream'')),
                sr_disposition =
                  (if filename \<noteq> []
                   then Some (''attachment; filename='' @ [CHR 0x22] @ enc filename @ [CHR 0x22])
                   else None) \<rparr>)"

definition StorageHandler_get ::
  "('st, 'b) storage_ops \<Rightarrow> (string \<Rightarrow> string) \<Rightarrow> (string \<Rightarrow> string option) \<Rightarrow>
   (string \<Rightarrow> string) \<Rightarrow> config \<Rightarrow> nat \<Rightarrow>
   string \<Rightarrow> string \<Rightarrow> nat \<Rightarrow> string \<Rightarrow> 'st \<Rightarrow> error + 'b storage_response" where
  "StorageHandler_get S md5 lookup enc cfg now target filename expire secret st =
     (let expected = expected_secret md5 cfg target expire in
      if expire < now then Inl (ForbiddenError ''Link expired'')
      else if secret \<noteq> expected then Inl (ForbiddenError ''Invalid secret'')
      else storage_respond S lookup enc target filename st)"

section \<open>\<^verbatim>\<open>FilesHandler\<close> (lines 33 to 89)\<close>

text \<open>\<^verbatim>\<open>FilesHandler.get\<close>. \<open>sortFiles\<close> (of \<^verbatim>\<open>utils\<close>) and \<open>renderHTML\<close> (of the
  handler base class) are parameters. The \<^verbatim>\<open>urlForFile\<close> closure of the body is a
  function of the route table only and is left out of the response.\<close>

definition FilesHandler_get ::
  "(file_record list option \<Rightarrow> file_record list) \<Rightarrow> (string \<Rightarrow> file_record list \<Rightarrow> string) \<Rightarrow>
   user \<Rightarrow> bool \<Rightarrow> error + files_response" where
  "FilesHandler_get sortFiles renderHTML this_user pjax =
     (case (if (case u_files this_user of None \<Rightarrow> True | Some fs \<Rightarrow> length fs = 0)
            then checkPriv this_user PRIV_CREATE_FILE else None) of
        Some e \<Rightarrow> Inl e
      | None \<Rightarrow>
          (let files = sortFiles (u_files this_user) in
           if pjax
           then Inr \<lparr> fr_template = '''',
                      fr_body = Fragments [renderHTML ''partials/files.html'' files] \<rparr>
           else Inr \<lparr> fr_template = ''home_files.html'', fr_body = Files files \<rparr>))"

text \<open>Line 69: the name the upload is stored under. \<open>rnd\<close> is the value of
  \<^verbatim>\<open>String.random(16)\<close>; an empty string and \<^verbatim>\<open>undefined\<close> are both falsy.\<close>

definition upload_filename :: "string \<Rightarrow> string \<Rightarrow> upload_file \<Rightarrow> string" where
  "upload_filename rnd filename file =
     (if filename = [] then
        (case originalFilename file of
           None \<Rightarrow> rnd
         | Some n \<Rightarrow> (if n = [] then rnd else n))
      else filename)"

text \<open>Lines 58 to 71 of \<^verbatim>\<open>postUploadFile\<close>: the checks before anything is written, in
  the order of the source. On success the result is the name to store under, the
  uploaded file and the current file list. \<open>statSync\<close> gives the byte size of the
  temporary file.\<close>

definition upload_checks ::
  "config \<Rightarrow> (string \<Rightarrow> nat) \<Rightarrow> string \<Rightarrow> user \<Rightarrow> string \<Rightarrow> upload_file option \<Rightarrow>
   error + (string \<times> upload_file \<times> file_record list)" where
  "upload_checks cfg statSync rnd this_user filename file =
     (case checkPriv this_user PRIV_CREATE_FILE of
        Some e \<Rightarrow> Inl e
      | None \<Rightarrow>
     if (case u_files this_user of None \<Rightarrow> 0 | Some fs \<Rightarrow> length fs) \<ge> limit_user_files cfg
        \<and> \<not> hasPriv this_user PRIV_UNLIMITED_QUOTA
     then Inl (ForbiddenError ''File limit exceeded.'')
     else
       (case file of
          None \<Rightarrow> Inl (ValidationError ''file'' None)
        | Some fl \<Rightarrow>
            (let f = statSync (filepath fl);
                 size = Math_sum (map f_size (case u_files this_user of None \<Rightarrow> [] | Some fs \<Rightarrow> fs)) + f
             in
             if size \<ge> limit_user_files_size cfg \<and> \<not> hasPriv this_user PRIV_UNLIMITED_QUOTA
             then Inl (ForbiddenError ''File size limit exceeded.'')
             else
               (let filename = upload_filename rnd filename fl in
                if str_includes filename ''/'' \<or> str_includes filename ''..''
                then Inl (ValidationError ''filename'' (Some ''Bad filename''))
                else
                  (case u_files this_user of
                     None \<Rightarrow> Inl TypeError
                   | Some fs \<Rightarrow>
                       if length (filter (\<lambda>i. f_name i = filename) fs) \<noteq> 0
                       then Inl (BadRequestError ''file exists'')
                       else Inr (filename, fl, fs))))))"

text \<open>Lines 74 and 76: the record pushed onto the list,
  \<^verbatim>\<open>{ _id: filename, name: filename, ...pick(meta, ['size', 'lastModified', 'etag']) }\<close>.\<close>

definition new_record :: "string \<Rightarrow> meta \<Rightarrow> file_record" where
  "new_record filename m =
     \<lparr> f_id = filename, f_name = filename, f_size = m_size m,
       f_lastModified = m_lastModified m, f_etag = m_etag m \<rparr>"

text \<open>Lines 72 to 78 of \<^verbatim>\<open>postUploadFile\<close>: the write, the metadata read, the push onto
  \<^verbatim>\<open>this.user._files\<close> and the overwrite of the persisted list. The result is the
  outcome, the handler's \<^verbatim>\<open>this.user\<close> and the state outside.\<close>

definition upload_persist ::
  "('st, 'b) storage_ops \<Rightarrow> user \<Rightarrow> string \<Rightarrow> upload_file \<Rightarrow> file_record list \<Rightarrow> 'st world \<Rightarrow>
   (error + ack) \<times> user \<times> 'st world" where
  "upload_persist S this_user filename fl fs w =
     (let path = user_path (u_id this_user) filename in
      case storage_put S path (filepath fl) (u_id this_user) (store w) of
        (Some e, st1) \<Rightarrow> (Inl e, this_user, w\<lparr>store := st1\<rparr>)
      | (None, st1) \<Rightarrow>
          (case storage_getMeta S path st1 of
             None \<Rightarrow> (Inl (Error ''Upload failed''), this_user, w\<lparr>store := st1\<rparr>)
           | Some m \<Rightarrow>
               (let fs' = fs @ [new_record filename m]
                in (Inr Back, this_user\<lparr>u_files := Some fs'\<rparr>,
                    w\<lparr>store := st1, users := setById_files (users w) (u_id this_user) fs'\<rparr>))))"

definition FilesHandler_postUploadFile ::
  "('st, 'b) storage_ops \<Rightarrow> config \<Rightarrow> (string \<Rightarrow> nat) \<Rightarrow> string \<Rightarrow>
   user \<Rightarrow> string \<Rightarrow> upload_file option \<Rightarrow> 'st world \<Rightarrow> (error + ack) \<times> user \<times> 'st world" where
  "FilesHandler_postUploadFile S cfg statSync rnd this_user filename file w =
     (case upload_checks cfg statSync rnd this_user filename file of
        Inl e \<Rightarrow> (Inl e, this_user, w)
      | Inr (fn, fl, fs) \<Rightarrow> upload_persist S this_user fn fl fs w)"

text \<open>\<^verbatim>\<open>postDeleteFiles\<close>. The arguments of \<^verbatim>\<open>Promise.all\<close> are evaluated in order:
  \<^verbatim>\<open>storage.del\<close> is started, then the list is filtered and \<^verbatim>\<open>setById\<close> is started
  whatever the deletion reports. A failed deletion rejects the handler afterwards.\<close>

definition FilesHandler_postDeleteFiles ::
  "('st, 'b) storage_ops \<Rightarrow> user \<Rightarrow> string list \<Rightarrow> 'st world \<Rightarrow> (error + ack) \<times> 'st world" where
  "FilesHandler_postDeleteFiles S this_user files w =
     (case storage_del S (map (\<lambda>t. user_path (u_id this_user) t) files) (u_id this_user) (store w) of
        (r, st1) \<Rightarrow>
          (case u_files this_user of
             None \<Rightarrow> (Inl TypeError, w\<lparr>store := st1\<rparr>)
           | Some fs \<Rightarrow>
               (let w' = w\<lparr>store := st1,
                           users := setById_files (users w) (u_id this_user)
                                      (filter (\<lambda>i. f_name i \<notin> set files) fs)\<rparr>
                in case r of Some e \<Rightarrow> (Inl e, w') | None \<Rightarrow> (Inr Back, w'))))"

section \<open>\<^verbatim>\<open>FSDownloadHandler.get\<close> (lines 97 to 111)\<close>

definition FSDownloadHandler_get ::
  "('st, 'b) storage_ops \<Rightarrow> user \<Rightarrow> int \<Rightarrow> string \<Rightarrow> bool \<Rightarrow> 'st world \<Rightarrow>
   (error + download_response) \<times> 'st world" where
  "FSDownloadHandler_get S this_user uid filename noDisposition w =
     (case getById (users w) ''system'' uid of
        None \<Rightarrow> (Inl (NotFoundError uid), w)
      | Some targetUser \<Rightarrow>
          if u_id this_user \<noteq> uid \<and> \<not> hasPriv targetUser PRIV_CREATE_FILE
          then (Inl (ForbiddenError ''Access denied''), w)
          else
            (let target = user_path uid filename;
                 file = storage_getMeta S target (store w);
                 w' = w\<lparr>oplog := oplog w @
                        [(''download.file.user'', target,
                          (case file of None \<Rightarrow> 0 | Some m \<Rightarrow> m_size m))]\<rparr>
             in (Inr \<lparr> dr_headers = [(''Cache-Control'', ''public'')],
                       dr_redirect = storage_signDownloadLink S target
                          (if noDisposition then None else Some filename) False ''user'' \<rparr>,
                 w')))"

section \<open>A storage engine to run the handlers on\<close>

text \<open>An engine that keeps the metadata of every object in an association list, and a
  second one that accepts every write but never returns metadata.\<close>

definition mem_storage :: "(string \<Rightarrow> nat) \<Rightarrow> ((string \<times> meta) list, string) storage_ops" where
  "mem_storage statSync =
     \<lparr> storage_put = (\<lambda>path fp owner st.
          (None, (path, \<lparr> m_size = statSync fp, m_lastModified = 0, m_etag = fp \<rparr>) # st)),
       storage_getMeta = (\<lambda>path st. map_of st path),
       storage_get = (\<lambda>path st. case map_of st path of
                         None \<Rightarrow> Inl (StorageError path) | Some m \<Rightarrow> Inr (m_etag m)),
       storage_del = (\<lambda>paths owner st. (None, filter (\<lambda>(p, m). p \<notin> set paths) st)),
       storage_signDownloadLink = (\<lambda>target fn force ns.
          ''/storage?target='' @ target
            @ (case fn of None \<Rightarrow> [] | Some n \<Rightarrow> ''&filename='' @ n)) \<rparr>"

definition blind_storage :: "(string \<Rightarrow> nat) \<Rightarrow> ((string \<times> meta) list, string) storage_ops" where
  "blind_storage statSync = (mem_storage statSync)\<lparr> storage_getMeta := (\<lambda>path st. None) \<rparr>"

section \<open>Quantities of the ledger\<close>

text \<open>The file count and the aggregate size as lines 59 and 65 compute them, and the
  persisted file list of a principal.\<close>

definition file_count :: "user \<Rightarrow> nat" where
  "file_count u = (case u_files u of None \<Rightarrow> 0 | Some fs \<Rightarrow> length fs)"

definition aggregate_size :: "user \<Rightarrow> nat" where
  "aggregate_size u = Math_sum (map f_size (case u_files u of None \<Rightarrow> [] | Some fs \<Rightarrow> fs))"

definition ledger :: "'st world \<Rightarrow> int \<Rightarrow> file_record list" where
  "ledger w uid =
     (case users w uid of
        None \<Rightarrow> []
      | Some d \<Rightarrow> (case u_files d of None \<Rightarrow> [] | Some fs \<Rightarrow> fs))"

section \<open>Concrete principals and requests\<close>

text \<open>The principal \<open>P1\<close> of the scenario: at most 2 files and 1000 bytes.\<close>

definition cfg_P1 :: config where
  "cfg_P1 = \<lparr> limit_user_files = 2, limit_user_files_size = 1000, file_secret = ''k3y'' \<rparr>"

definition rec_of :: "string \<Rightarrow> nat \<Rightarrow> file_record" where
  "rec_of n s = \<lparr> f_id = n, f_name = n, f_size = s, f_lastModified = 0, f_etag = ''/tmp/up'' \<rparr>"

definition P1 :: "priv set \<Rightarrow> file_record list \<Rightarrow> user" where
  "P1 ps fs = \<lparr> u_id = 1, u_priv = ps, u_files = Some fs \<rparr>"

definition tmp_file :: "string \<Rightarrow> upload_file" where
  "tmp_file n = \<lparr> filepath = ''/tmp/up'', originalFilename = Some n \<rparr>"

definition world_P1 :: "user \<Rightarrow> (string \<times> meta) list world" where
  "world_P1 u = \<lparr> users = [1 \<mapsto> u], store = [], oplog = [] \<rparr>"

text \<open>A temporary file system in which every file has \<open>n\<close> bytes.\<close>

definition stat_const :: "nat \<Rightarrow> string \<Rightarrow> nat" where
  "stat_const n p = n"

text \<open>A second state: principal 1 without the file-creation privilege, principal 2 with
  it.\<close>

definition P2 :: user where
  "P2 = \<lparr> u_id = 2, u_priv = {PRIV_CREATE_FILE}, u_files = Some [] \<rparr>"

definition world_two :: "(string \<times> meta) list world" where
  "world_two = \<lparr> users = [1 \<mapsto> P1 {} [rec_of ''a.txt'' 400], 2 \<mapsto> P2],
                 store = [], oplog = [] \<rparr>"

section \<open>Facts about the upload and delete handlers\<close>

lemmas fixtures = cfg_P1_def rec_of_def P1_def tmp_file_def world_P1_def stat_const_def

lemma upload_checks_size:
  assumes "hasPriv u PRIV_CREATE_FILE" "\<not> hasPriv u PRIV_UNLIMITED_QUOTA"
      "file_count u < limit_user_files cfg"
      "limit_user_files_size cfg \<le> aggregate_size u + statSync (filepath fl)"
  shows "upload_checks cfg statSync rnd u filename (Some fl)
           = Inl (ForbiddenError ''File size limit exceeded.'')"
  using assms
  by (simp add: upload_checks_def checkPriv_def file_count_def aggregate_size_def Let_def)

lemma upload_checks_ok:
  assumes "hasPriv u PRIV_CREATE_FILE"
      "file_count u < limit_user_files cfg \<or> hasPriv u PRIV_UNLIMITED_QUOTA"
      "aggregate_size u + statSync (filepath fl) < limit_user_files_size cfg
         \<or> hasPriv u PRIV_UNLIMITED_QUOTA"
      "\<not> str_includes (upload_filename rnd filename fl) ''/''"
      "\<not> str_includes (upload_filename rnd filename fl) ''..''"
      "u_files u = Some fs"
      "\<forall>i \<in> set fs. f_name i \<noteq> upload_filename rnd filename fl"
  shows "upload_checks cfg statSync rnd u filename (Some fl)
           = Inr (upload_filename rnd filename fl, fl, fs)"
proof -
  have "filter (\<lambda>i. f_name i = upload_filename rnd filename fl) fs = []"
    using assms(7) by (simp add: filter_empty_conv)
  then show ?thesis
    using assms(1-6)
    by (auto simp add: upload_checks_def checkPriv_def file_count_def aggregate_size_def Let_def)
qed

lemma upload_checks_Inr:
  assumes "upload_checks cfg statSync rnd u filename upl = Inr (fn, fl, fs)"
  shows "upl = Some fl \<and> fn = upload_filename rnd filename fl \<and> u_files u = Some fs
         \<and> (\<forall>i \<in> set fs. f_name i \<noteq> fn) \<and> hasPriv u PRIV_CREATE_FILE
         \<and> \<not> str_includes fn ''/'' \<and> \<not> str_includes fn ''..''"
  using assms
  by (auto simp add: upload_checks_def checkPriv_def Let_def filter_empty_conv
      split: option.splits if_splits)

lemma upload_filename_nonempty: "filename \<noteq> [] \<Longrightarrow> upload_filename rnd filename fl = filename"
  by (simp add: upload_filename_def)

lemma str_includes_nonempty: "str_includes s t \<Longrightarrow> t \<noteq> [] \<Longrightarrow> s \<noteq> []"
  by (auto simp add: str_includes_def)

lemma upload_persist_Inr:
  assumes "upload_persist S u fn fl fs w = (Inr Back, u', w')"
  obtains stp m where
    "storage_put S (user_path (u_id u) fn) (filepath fl) (u_id u) (store w) = (None, stp)"
    "storage_getMeta S (user_path (u_id u) fn) stp = Some m"
    "u' = u\<lparr>u_files := Some (fs @ [new_record fn m])\<rparr>"
    "w' = w\<lparr>store := stp, users := setById_files (users w) (u_id u) (fs @ [new_record fn m])\<rparr>"
  using assms
  by (auto simp add: upload_persist_def Let_def split: prod.splits option.splits)

lemma user_files_same: "u_files u = Some fs \<Longrightarrow> u\<lparr>u_files := Some fs\<rparr> = u"
  by (cases u) simp

lemma delete_users:
  assumes "u_files u = Some fs"
  shows "users (snd (FilesHandler_postDeleteFiles S u files w))
           = setById_files (users w) (u_id u) (filter (\<lambda>i. f_name i \<notin> set files) fs)"
  using assms
  by (simp add: FilesHandler_postDeleteFiles_def Let_def split: prod.splits option.splits)

section \<open>The signed-fetch endpoint\<close>

text \<open>
  C1. The fingerprint the endpoint accepts is the hash of
  \<open>target @ ''/'' @ expire @ ''/'' @ secret of the server\<close>, the expiry in decimal. A
  request that presents exactly this string passes the fingerprint check: the handler goes
  on to fetch the object, unless the link has expired, which the expiry check reports. A
  request that presents any other string for the same target and expiry is rejected with
  a forbidden error.
\<close>

theorem storage_fingerprint_roundtrip:
  "StorageHandler_get S hash lookup enc cfg now target filename expire
          (hash (target @ ''/'' @ decimal expire @ ''/'' @ file_secret cfg)) st
        = (if expire < now then Inl (ForbiddenError ''Link expired'')
           else storage_respond S lookup enc target filename st)
   \<and> (secret \<noteq> hash (target @ ''/'' @ decimal expire @ ''/'' @ file_secret cfg) \<longrightarrow>
        StorageHandler_get S hash lookup enc cfg now target filename expire secret st
          = (if expire < now then Inl (ForbiddenError ''Link expired'')
             else Inl (ForbiddenError ''Invalid secret'')))"
  by (simp add: StorageHandler_get_def expected_secret_def Let_def)

theorem storage_fingerprint_roundtrip_witness:
  "\<not> (2000::nat) < 1000
   \<and> rev (''user/1/a.txt'' @ ''/'' @ decimal 2000 @ ''/'' @ file_secret cfg_P1) = ''y3k/0002/txt.a/1/resu''
   \<and> StorageHandler_get (mem_storage (stat_const 400)) rev (\<lambda>t. None) id cfg_P1 1000
        ''user/1/a.txt'' ''a.txt'' 2000 ''y3k/0002/txt.a/1/resu''
        [(''user/1/a.txt'', \<lparr> m_size = 400, m_lastModified = 0, m_etag = ''bytes'' \<rparr>)]
      = Inr \<lparr> sr_body = ''bytes'', sr_type = ''application/octet-stream'',
              sr_disposition = Some (''attachment; filename='' @ [CHR 0x22] @ ''a.txt'' @ [CHR 0x22]) \<rparr>
   \<and> ''y3k/0002/txt.a/1/resX'' \<noteq> rev (''user/1/a.txt'' @ ''/'' @ decimal 2000 @ ''/'' @ file_secret cfg_P1)
   \<and> StorageHandler_get (mem_storage (stat_const 400)) rev (\<lambda>t. None) id cfg_P1 1000
        ''user/1/a.txt'' ''a.txt'' 2000 ''y3k/0002/txt.a/1/resX''
        [(''user/1/a.txt'', \<lparr> m_size = 400, m_lastModified = 0, m_etag = ''bytes'' \<rparr>)]
      = Inl (ForbiddenError ''Invalid secret'')"
  using storage_fingerprint_roundtrip [where expire = 2000 and now = 1000 and hash = rev
      and cfg = cfg_P1 and target = "''user/1/a.txt''" and filename = "''a.txt''"
      and secret = "''y3k/0002/txt.a/1/resX''" and S = "mem_storage (stat_const 400)"
      and lookup = "\<lambda>t. None" and enc = id
      and st = "[(''user/1/a.txt'', \<lparr> m_size = 400, m_lastModified = 0, m_etag = ''bytes'' \<rparr>)]"]
  by (simp add: cfg_P1_def decimal.simps digit_def storage_respond_def
        mem_storage_def endsWith_def suffix_to_prefix)

text \<open>
  C2. A request whose expiry is strictly less than the current time is rejected, whatever
  fingerprint it presents and in particular when it presents the correctly recomputed
  one. The expiry is checked first: a request that fails both checks gets the answer of
  the expiry check. The two rejections are errors of the same class, \<open>ForbiddenError\<close>.
\<close>

theorem storage_expiry_checked_first:
  "(expire < now \<longrightarrow>
      StorageHandler_get S hash lookup enc cfg now target filename expire secret st
        = Inl (ForbiddenError ''Link expired'')
      \<and> StorageHandler_get S hash lookup enc cfg now target filename expire
          (expected_secret hash cfg target expire) st
        = Inl (ForbiddenError ''Link expired''))
   \<and> (\<not> expire < now \<and> secret \<noteq> expected_secret hash cfg target expire \<longrightarrow>
        StorageHandler_get S hash lookup enc cfg now target filename expire secret st
          = Inl (ForbiddenError ''Invalid secret''))"
  by (simp add: StorageHandler_get_def Let_def)

theorem storage_expiry_checked_first_witness:
  "(999::nat) < 1000
   \<and> expected_secret rev cfg_P1 ''user/1/a.txt'' 999 = ''y3k/999/txt.a/1/resu''
   \<and> StorageHandler_get (mem_storage (stat_const 400)) rev (\<lambda>t. None) id cfg_P1 1000
        ''user/1/a.txt'' ''a.txt'' 999 ''y3k/999/txt.a/1/resu''
        [(''user/1/a.txt'', \<lparr> m_size = 400, m_lastModified = 0, m_etag = ''bytes'' \<rparr>)]
      = Inl (ForbiddenError ''Link expired'')
   \<and> \<not> (1000::nat) < 1000
   \<and> ''guess'' \<noteq> expected_secret rev cfg_P1 ''user/1/a.txt'' 1000
   \<and> StorageHandler_get (mem_storage (stat_const 400)) rev (\<lambda>t. None) id cfg_P1 1000
        ''user/1/a.txt'' ''a.txt'' 1000 ''guess''
        [(''user/1/a.txt'', \<lparr> m_size = 400, m_lastModified = 0, m_etag = ''bytes'' \<rparr>)]
      = Inl (ForbiddenError ''Invalid secret'')"
  using storage_expiry_checked_first [where expire = 999 and now = 1000 and hash = rev
      and cfg = cfg_P1 and target = "''user/1/a.txt''" and filename = "''a.txt''"
      and secret = "''y3k/999/txt.a/1/resu''" and S = "mem_storage (stat_const 400)"
      and lookup = "\<lambda>t. None" and enc = id
      and st = "[(''user/1/a.txt'', \<lparr> m_size = 400, m_lastModified = 0, m_etag = ''bytes'' \<rparr>)]"]
    storage_expiry_checked_first [where expire = 1000 and now = 1000 and hash = rev
      and cfg = cfg_P1 and target = "''user/1/a.txt''" and filename = "''a.txt''"
      and secret = "''guess''" and S = "mem_storage (stat_const 400)"
      and lookup = "\<lambda>t. None" and enc = id
      and st = "[(''user/1/a.txt'', \<lparr> m_size = 400, m_lastModified = 0, m_etag = ''bytes'' \<rparr>)]"]
  by (simp add: cfg_P1_def expected_secret_def decimal.simps digit_def)

section \<open>The upload workflow\<close>

text \<open>
  C3, as the code has it. Line 66 rejects when the prospective aggregate (the sum of the
  existing sizes plus the size of the new object) is greater than or equal to the byte
  limit. For a principal that holds the file-creation privilege, lacks the unlimited-quota
  privilege and is below the count limit: an upload that brings the aggregate to the limit
  or beyond fails with the size quota error and changes nothing; an upload that keeps it
  strictly below the limit succeeds when the name is valid and new, the write succeeds
  and metadata is returned.
\<close>

theorem upload_size_boundary:
  assumes "hasPriv u PRIV_CREATE_FILE" and "\<not> hasPriv u PRIV_UNLIMITED_QUOTA"
      and "file_count u < limit_user_files cfg"
  shows "(limit_user_files_size cfg \<le> aggregate_size u + statSync (filepath fl) \<longrightarrow>
            FilesHandler_postUploadFile S cfg statSync rnd u filename (Some fl) w
              = (Inl (ForbiddenError ''File size limit exceeded.''), u, w))
       \<and> (aggregate_size u + statSync (filepath fl) < limit_user_files_size cfg
            \<and> \<not> str_includes (upload_filename rnd filename fl) ''/''
            \<and> \<not> str_includes (upload_filename rnd filename fl) ''..''
            \<and> u_files u = Some fs
            \<and> (\<forall>i \<in> set fs. f_name i \<noteq> upload_filename rnd filename fl)
            \<and> storage_put S (user_path (u_id u) (upload_filename rnd filename fl)) (filepath fl)
                 (u_id u) (store w) = (None, stp)
            \<and> storage_getMeta S (user_path (u_id u) (upload_filename rnd filename fl)) stp = Some m
          \<longrightarrow> fst (FilesHandler_postUploadFile S cfg statSync rnd u filename (Some fl) w) = Inr Back)"
proof (intro conjI impI)
  assume "limit_user_files_size cfg \<le> aggregate_size u + statSync (filepath fl)"
  then show "FilesHandler_postUploadFile S cfg statSync rnd u filename (Some fl) w
              = (Inl (ForbiddenError ''File size limit exceeded.''), u, w)"
    using assms by (simp add: FilesHandler_postUploadFile_def upload_checks_size)
next
  assume a: "aggregate_size u + statSync (filepath fl) < limit_user_files_size cfg
            \<and> \<not> str_includes (upload_filename rnd filename fl) ''/''
            \<and> \<not> str_includes (upload_filename rnd filename fl) ''..''
            \<and> u_files u = Some fs
            \<and> (\<forall>i \<in> set fs. f_name i \<noteq> upload_filename rnd filename fl)
            \<and> storage_put S (user_path (u_id u) (upload_filename rnd filename fl)) (filepath fl)
                 (u_id u) (store w) = (None, stp)
            \<and> storage_getMeta S (user_path (u_id u) (upload_filename rnd filename fl)) stp = Some m"
  then have "upload_checks cfg statSync rnd u filename (Some fl)
               = Inr (upload_filename rnd filename fl, fl, fs)"
    using assms by (intro upload_checks_ok) simp_all
  then show "fst (FilesHandler_postUploadFile S cfg statSync rnd u filename (Some fl) w) = Inr Back"
    using a by (simp add: FilesHandler_postUploadFile_def upload_persist_def Let_def)
qed

text \<open>At exactly the limit the upload is rejected: 600 bytes stored, 400 bytes uploaded,
  a limit of 1000 bytes.\<close>

theorem upload_exact_limit_counterexample:
  "aggregate_size (P1 {PRIV_CREATE_FILE} [rec_of ''a.txt'' 600]) + 400 = limit_user_files_size cfg_P1
   \<and> fst (FilesHandler_postUploadFile (mem_storage (stat_const 400)) cfg_P1 (stat_const 400) ''r''
          (P1 {PRIV_CREATE_FILE} [rec_of ''a.txt'' 600]) ''b.txt'' (Some (tmp_file ''b.txt''))
          (world_P1 (P1 {PRIV_CREATE_FILE} [rec_of ''a.txt'' 600])))
       = Inl (ForbiddenError ''File size limit exceeded.'')"
  by (simp add: fixtures FilesHandler_postUploadFile_def upload_checks_def checkPriv_def
        hasPriv_def Math_sum_def Let_def aggregate_size_def)

theorem upload_size_boundary_witness:
  "fst (FilesHandler_postUploadFile (mem_storage (stat_const 399)) cfg_P1 (stat_const 399) ''r''
          (P1 {PRIV_CREATE_FILE} [rec_of ''a.txt'' 600]) ''b.txt'' (Some (tmp_file ''b.txt''))
          (world_P1 (P1 {PRIV_CREATE_FILE} [rec_of ''a.txt'' 600]))) = Inr Back
   \<and> FilesHandler_postUploadFile (mem_storage (stat_const 401)) cfg_P1 (stat_const 401) ''r''
          (P1 {PRIV_CREATE_FILE} [rec_of ''a.txt'' 600]) ''b.txt'' (Some (tmp_file ''b.txt''))
          (world_P1 (P1 {PRIV_CREATE_FILE} [rec_of ''a.txt'' 600]))
      = (Inl (ForbiddenError ''File size limit exceeded.''), P1 {PRIV_CREATE_FILE} [rec_of ''a.txt'' 600],
         world_P1 (P1 {PRIV_CREATE_FILE} [rec_of ''a.txt'' 600]))"
  using upload_size_boundary [where u = "P1 {PRIV_CREATE_FILE} [rec_of ''a.txt'' 600]" and cfg = cfg_P1
      and statSync = "stat_const 399" and S = "mem_storage (stat_const 399)" and rnd = "''r''" and filename = "''b.txt''"
      and fl = "tmp_file ''b.txt''" and w = "world_P1 (P1 {PRIV_CREATE_FILE} [rec_of ''a.txt'' 600])"
      and fs = "[rec_of ''a.txt'' 600]"
      and stp = "[(''user/1/b.txt'', \<lparr> m_size = 399, m_lastModified = 0, m_etag = ''/tmp/up'' \<rparr>)]"
      and m = "\<lparr> m_size = 399, m_lastModified = 0, m_etag = ''/tmp/up'' \<rparr>"]
    upload_size_boundary [where u = "P1 {PRIV_CREATE_FILE} [rec_of ''a.txt'' 600]" and cfg = cfg_P1
      and statSync = "stat_const 401" and S = "mem_storage (stat_const 401)" and rnd = "''r''" and filename = "''b.txt''"
      and fl = "tmp_file ''b.txt''" and w = "world_P1 (P1 {PRIV_CREATE_FILE} [rec_of ''a.txt'' 600])"]
  by (simp add: fixtures hasPriv_def file_count_def aggregate_size_def Math_sum_def upload_filename_def
        str_includes_def sublist_code user_path_def number_to_string_def decimal.simps digit_def mem_storage_def)

text \<open>
  C4, as the code has it. An empty filename field is not rejected: line 69 replaces it by
  the original name of the uploaded file, or by a random name, and the upload goes on as
  if that name had been given. The name, given or derived, is validated at line 70, after
  the privilege check, the count check, the presence check of the upload and the
  aggregate-size check. An upload whose name contains \<open>/\<close> or \<open>..\<close> never succeeds and
  changes nothing, whatever the quota state. Its error is that of the first check that
  fails, in the order of the source: the permission error, the count quota error, the
  missing-file validation error, the size quota error, and the invalid-filename
  validation error when the four earlier checks pass.
\<close>

theorem upload_bad_filename_rejected:
  assumes "str_includes filename ''/'' \<or> str_includes filename ''..''
           \<or> (\<exists>fl. upl = Some fl
                 \<and> (str_includes (upload_filename rnd filename fl) ''/''
                     \<or> str_includes (upload_filename rnd filename fl) ''..''))"
  shows "FilesHandler_postUploadFile S cfg statSync rnd u filename upl w
           = (Inl (if \<not> hasPriv u PRIV_CREATE_FILE then PrivilegeError PRIV_CREATE_FILE
                   else if limit_user_files cfg \<le> file_count u \<and> \<not> hasPriv u PRIV_UNLIMITED_QUOTA
                   then ForbiddenError ''File limit exceeded.''
                   else (case upl of
                           None \<Rightarrow> ValidationError ''file'' None
                         | Some fl \<Rightarrow>
                             if limit_user_files_size cfg \<le> aggregate_size u + statSync (filepath fl)
                                \<and> \<not> hasPriv u PRIV_UNLIMITED_QUOTA
                             then ForbiddenError ''File size limit exceeded.''
                             else ValidationError ''filename'' (Some ''Bad filename''))),
              u, w)
       \<and> (\<forall>fl. upload_filename rnd [] fl \<noteq> [] \<longrightarrow>
             FilesHandler_postUploadFile S cfg statSync rnd u [] (Some fl) w
               = FilesHandler_postUploadFile S cfg statSync rnd u (upload_filename rnd [] fl) (Some fl) w)"
proof (intro conjI allI impI)
  have bad: "\<And>fl. upl = Some fl \<Longrightarrow> str_includes (upload_filename rnd filename fl) ''/''
              \<or> str_includes (upload_filename rnd filename fl) ''..''"
  proof -
    fix fl assume fl: "upl = Some fl"
    show "str_includes (upload_filename rnd filename fl) ''/''
              \<or> str_includes (upload_filename rnd filename fl) ''..''"
    proof (cases "str_includes filename ''/'' \<or> str_includes filename ''..''")
      case True
      then have "filename \<noteq> []"
        by (auto dest: str_includes_nonempty)
      with True show ?thesis
        by (simp add: upload_filename_nonempty)
    next
      case False
      with assms fl show ?thesis
        by auto
    qed
  qed
  show "FilesHandler_postUploadFile S cfg statSync rnd u filename upl w
           = (Inl (if \<not> hasPriv u PRIV_CREATE_FILE then PrivilegeError PRIV_CREATE_FILE
                   else if limit_user_files cfg \<le> file_count u \<and> \<not> hasPriv u PRIV_UNLIMITED_QUOTA
                   then ForbiddenError ''File limit exceeded.''
                   else (case upl of
                           None \<Rightarrow> ValidationError ''file'' None
                         | Some fl \<Rightarrow>
                             if limit_user_files_size cfg \<le> aggregate_size u + statSync (filepath fl)
                                \<and> \<not> hasPriv u PRIV_UNLIMITED_QUOTA
                             then ForbiddenError ''File size limit exceeded.''
                             else ValidationError ''filename'' (Some ''Bad filename''))),
              u, w)"
  proof (cases upl)
    case None
    then show ?thesis
      by (simp add: FilesHandler_postUploadFile_def upload_checks_def checkPriv_def file_count_def)
  next
    case (Some fl)
    with bad [OF Some] show ?thesis
      by (auto simp add: FilesHandler_postUploadFile_def upload_checks_def checkPriv_def
            file_count_def aggregate_size_def Let_def)
  qed
next
  fix fl assume "upload_filename rnd [] fl \<noteq> []"
  then have same: "upload_filename rnd (upload_filename rnd [] fl) fl = upload_filename rnd [] fl"
    by (rule upload_filename_nonempty)
  show "FilesHandler_postUploadFile S cfg statSync rnd u [] (Some fl) w
               = FilesHandler_postUploadFile S cfg statSync rnd u (upload_filename rnd [] fl) (Some fl) w"
  proof -
    have "upload_checks cfg statSync rnd u [] (Some fl)
            = upload_checks cfg statSync rnd u (upload_filename rnd [] fl) (Some fl)"
      by (simp add: upload_checks_def checkPriv_def Let_def same)
    then show ?thesis
      by (simp only: FilesHandler_postUploadFile_def)
  qed
qed

text \<open>A principal over its byte quota that uploads under the name \<open>../x\<close> gets the size
  quota error, not the validation error; and an upload with an empty filename field
  succeeds.\<close>

theorem upload_validation_order_counterexample:
  "str_includes ''../x'' ''..''
   \<and> fst (FilesHandler_postUploadFile (mem_storage (stat_const 1)) cfg_P1 (stat_const 1) ''r''
          (P1 {PRIV_CREATE_FILE} [rec_of ''a.txt'' 1000]) ''../x'' (Some (tmp_file ''x''))
          (world_P1 (P1 {PRIV_CREATE_FILE} [rec_of ''a.txt'' 1000])))
       = Inl (ForbiddenError ''File size limit exceeded.'')
   \<and> fst (FilesHandler_postUploadFile (mem_storage (stat_const 300)) cfg_P1 (stat_const 300) ''r''
          (P1 {PRIV_CREATE_FILE} [rec_of ''a.txt'' 400]) [] (Some (tmp_file ''c.txt''))
          (world_P1 (P1 {PRIV_CREATE_FILE} [rec_of ''a.txt'' 400])))
       = Inr Back"
  by (simp add: fixtures FilesHandler_postUploadFile_def upload_checks_def upload_persist_def
        checkPriv_def hasPriv_def Math_sum_def Let_def str_includes_def sublist_code
        upload_filename_def mem_storage_def user_path_def number_to_string_def decimal.simps digit_def)

theorem upload_bad_filename_rejected_witness:
  "(str_includes [] ''/'' \<or> str_includes [] ''..''
      \<or> (\<exists>fl. Some (tmp_file ''../2/x'') = Some fl
            \<and> (str_includes (upload_filename ''r'' [] fl) ''/''
                \<or> str_includes (upload_filename ''r'' [] fl) ''..'')))
   \<and> FilesHandler_postUploadFile (mem_storage (stat_const 100)) cfg_P1 (stat_const 100) ''r''
          (P1 {PRIV_CREATE_FILE} [rec_of ''a.txt'' 400]) [] (Some (tmp_file ''../2/x''))
          (world_P1 (P1 {PRIV_CREATE_FILE} [rec_of ''a.txt'' 400]))
       = (Inl (ValidationError ''filename'' (Some ''Bad filename'')),
          P1 {PRIV_CREATE_FILE} [rec_of ''a.txt'' 400],
          world_P1 (P1 {PRIV_CREATE_FILE} [rec_of ''a.txt'' 400]))
   \<and> FilesHandler_postUploadFile (mem_storage (stat_const 100)) cfg_P1 (stat_const 100) ''r''
          (P1 {} [rec_of ''a.txt'' 400]) ''a/b'' None
          (world_P1 (P1 {} [rec_of ''a.txt'' 400]))
       = (Inl (PrivilegeError PRIV_CREATE_FILE),
          P1 {} [rec_of ''a.txt'' 400],
          world_P1 (P1 {} [rec_of ''a.txt'' 400]))"
proof -
  have bad: "str_includes (upload_filename ''r'' [] (tmp_file ''../2/x'')) ''/''"
    by (simp add: upload_filename_def tmp_file_def str_includes_def sublist_code)
  have h1: "str_includes [] ''/'' \<or> str_includes [] ''..''
      \<or> (\<exists>fl. Some (tmp_file ''../2/x'') = Some fl
            \<and> (str_includes (upload_filename ''r'' [] fl) ''/''
                \<or> str_includes (upload_filename ''r'' [] fl) ''..''))"
    using bad by simp
  have h2: "str_includes ''a/b'' ''/'' \<or> str_includes ''a/b'' ''..''
      \<or> (\<exists>fl. None = Some fl
            \<and> (str_includes (upload_filename ''r'' ''a/b'' fl) ''/''
                \<or> str_includes (upload_filename ''r'' ''a/b'' fl) ''..''))"
    by (simp add: str_includes_def sublist_code)
  note t1 = upload_bad_filename_rejected [OF h1, where S = "mem_storage (stat_const 100)"
      and cfg = cfg_P1 and statSync = "stat_const 100"
      and u = "P1 {PRIV_CREATE_FILE} [rec_of ''a.txt'' 400]"
      and w = "world_P1 (P1 {PRIV_CREATE_FILE} [rec_of ''a.txt'' 400])", THEN conjunct1]
  note t2 = upload_bad_filename_rejected [OF h2, where S = "mem_storage (stat_const 100)"
      and cfg = cfg_P1 and statSync = "stat_const 100"
      and u = "P1 {} [rec_of ''a.txt'' 400]"
      and w = "world_P1 (P1 {} [rec_of ''a.txt'' 400])", THEN conjunct1]
  show ?thesis
    using h1 t1 t2
    by (simp add: fixtures hasPriv_def file_count_def aggregate_size_def Math_sum_def)
qed

text \<open>
  C5, as the code has it. For a principal that lacks the unlimited-quota privilege and
  whose file count equals the count limit, every upload fails and changes nothing: with
  the count quota error when the principal holds the file-creation privilege that line 58
  requires, with the permission error of line 58 when it does not. The uploaded object
  plays no part, so this holds for an object of size 0 too.
\<close>

theorem upload_count_limit:
  assumes "\<not> hasPriv u PRIV_UNLIMITED_QUOTA" and "file_count u = limit_user_files cfg"
  shows "FilesHandler_postUploadFile S cfg statSync rnd u filename upl w
           = (Inl (if hasPriv u PRIV_CREATE_FILE then ForbiddenError ''File limit exceeded.''
                   else PrivilegeError PRIV_CREATE_FILE), u, w)"
  using assms
  by (simp add: FilesHandler_postUploadFile_def upload_checks_def checkPriv_def file_count_def)

text \<open>A principal at the count limit that lacks the file-creation privilege gets the
  permission error, not the count quota error.\<close>

theorem upload_count_limit_counterexample:
  "\<not> hasPriv (P1 {} [rec_of ''a.txt'' 400, rec_of ''b.txt'' 400]) PRIV_UNLIMITED_QUOTA
   \<and> file_count (P1 {} [rec_of ''a.txt'' 400, rec_of ''b.txt'' 400]) = limit_user_files cfg_P1
   \<and> fst (FilesHandler_postUploadFile (mem_storage (stat_const 0)) cfg_P1 (stat_const 0) ''r''
          (P1 {} [rec_of ''a.txt'' 400, rec_of ''b.txt'' 400]) ''c.txt'' (Some (tmp_file ''c.txt''))
          (world_P1 (P1 {} [rec_of ''a.txt'' 400, rec_of ''b.txt'' 400])))
       = Inl (PrivilegeError PRIV_CREATE_FILE)"
  by (simp add: fixtures FilesHandler_postUploadFile_def upload_checks_def checkPriv_def
        hasPriv_def file_count_def)

theorem upload_count_limit_witness:
  "\<not> hasPriv (P1 {PRIV_CREATE_FILE} [rec_of ''a.txt'' 400, rec_of ''b.txt'' 400]) PRIV_UNLIMITED_QUOTA
   \<and> file_count (P1 {PRIV_CREATE_FILE} [rec_of ''a.txt'' 400, rec_of ''b.txt'' 400])
       = limit_user_files cfg_P1
   \<and> stat_const 0 (filepath (tmp_file ''c.txt'')) = 0
   \<and> FilesHandler_postUploadFile (mem_storage (stat_const 0)) cfg_P1 (stat_const 0) ''r''
          (P1 {PRIV_CREATE_FILE} [rec_of ''a.txt'' 400, rec_of ''b.txt'' 400]) ''c.txt''
          (Some (tmp_file ''c.txt''))
          (world_P1 (P1 {PRIV_CREATE_FILE} [rec_of ''a.txt'' 400, rec_of ''b.txt'' 400]))
       = (Inl (ForbiddenError ''File limit exceeded.''),
          P1 {PRIV_CREATE_FILE} [rec_of ''a.txt'' 400, rec_of ''b.txt'' 400],
          world_P1 (P1 {PRIV_CREATE_FILE} [rec_of ''a.txt'' 400, rec_of ''b.txt'' 400]))"
  using upload_count_limit [where S = "mem_storage (stat_const 0)"
      and cfg = cfg_P1 and statSync = "stat_const 0" and rnd = "''r''" and filename = "''c.txt''"
      and u = "P1 {PRIV_CREATE_FILE} [rec_of ''a.txt'' 400, rec_of ''b.txt'' 400]"
      and upl = "Some (tmp_file ''c.txt'')"
      and w = "world_P1 (P1 {PRIV_CREATE_FILE} [rec_of ''a.txt'' 400, rec_of ''b.txt'' 400])"]
  by (simp add: fixtures hasPriv_def file_count_def)

text \<open>
  C7. When the checks of the upload have passed and the write has succeeded, but the
  metadata read that follows returns nothing, the upload fails with the plain error
  \<open>Upload failed\<close>. Only the storage engine has changed: no record is pushed onto the
  file list of the handler's principal and the identity store is not written.
\<close>

theorem upload_meta_failure:
  assumes "upload_checks cfg statSync rnd u filename upl = Inr (fn, fl, fs)"
      and "storage_put S (user_path (u_id u) fn) (filepath fl) (u_id u) (store w) = (None, stp)"
      and "storage_getMeta S (user_path (u_id u) fn) stp = None"
  shows "FilesHandler_postUploadFile S cfg statSync rnd u filename upl w
           = (Inl (Error ''Upload failed''), u, w\<lparr>store := stp\<rparr>)
       \<and> users (snd (snd (FilesHandler_postUploadFile S cfg statSync rnd u filename upl w))) = users w
       \<and> u_files (fst (snd (FilesHandler_postUploadFile S cfg statSync rnd u filename upl w)))
           = u_files u"
  using assms by (simp add: FilesHandler_postUploadFile_def upload_persist_def Let_def)

theorem upload_meta_failure_witness:
  "upload_checks cfg_P1 (stat_const 400) ''r'' (P1 {PRIV_CREATE_FILE} []) ''a.txt'' (Some (tmp_file ''a.txt''))
     = Inr (''a.txt'', tmp_file ''a.txt'', [])
   \<and> storage_put (blind_storage (stat_const 400)) (user_path 1 ''a.txt'') ''/tmp/up'' 1 []
     = (None, [(''user/1/a.txt'', \<lparr> m_size = 400, m_lastModified = 0, m_etag = ''/tmp/up'' \<rparr>)])
   \<and> storage_getMeta (blind_storage (stat_const 400)) (user_path 1 ''a.txt'')
        [(''user/1/a.txt'', \<lparr> m_size = 400, m_lastModified = 0, m_etag = ''/tmp/up'' \<rparr>)] = None
   \<and> FilesHandler_postUploadFile (blind_storage (stat_const 400)) cfg_P1 (stat_const 400) ''r''
        (P1 {PRIV_CREATE_FILE} []) ''a.txt'' (Some (tmp_file ''a.txt''))
        (world_P1 (P1 {PRIV_CREATE_FILE} []))
       = (Inl (Error ''Upload failed''), P1 {PRIV_CREATE_FILE} [],
          (world_P1 (P1 {PRIV_CREATE_FILE} []))
            \<lparr>store := [(''user/1/a.txt'', \<lparr> m_size = 400, m_lastModified = 0, m_etag = ''/tmp/up'' \<rparr>)]\<rparr>)"
  using upload_meta_failure [where S = "blind_storage (stat_const 400)" and cfg = cfg_P1
      and statSync = "stat_const 400" and rnd = "''r''" and u = "P1 {PRIV_CREATE_FILE} []"
      and filename = "''a.txt''" and upl = "Some (tmp_file ''a.txt'')"
      and w = "world_P1 (P1 {PRIV_CREATE_FILE} [])" and fn = "''a.txt''" and fl = "tmp_file ''a.txt''"
      and fs = "[]"
      and stp = "[(''user/1/a.txt'', \<lparr> m_size = 400, m_lastModified = 0, m_etag = ''/tmp/up'' \<rparr>)]"]
  by (simp add: fixtures upload_checks_def checkPriv_def hasPriv_def Math_sum_def Let_def
        upload_filename_def str_includes_def sublist_code user_path_def number_to_string_def
        decimal.simps digit_def mem_storage_def blind_storage_def)

text \<open>
  C8. The handler's principal is the one the identity store holds (no concurrent
  mutation). After a successful upload the stored file list is one record longer; the
  next request finds the principal as the upload left it, and deleting the name the
  upload was stored under brings the identity store back to what it was before the
  upload: the same file list, hence the same file count and the same aggregate size.
  A successful upload implies that the name was not in the list before.
\<close>

theorem upload_then_delete_restores_ledger:
  assumes "users w (u_id u) = Some u"
      and "FilesHandler_postUploadFile S cfg statSync rnd u filename (Some fl) w = (Inr Back, u', w')"
  shows "users w' (u_id u) = Some u'
       \<and> length (ledger w' (u_id u)) = Suc (length (ledger w (u_id u)))
       \<and> users (snd (FilesHandler_postDeleteFiles S u' [upload_filename rnd filename fl] w')) = users w
       \<and> ledger (snd (FilesHandler_postDeleteFiles S u' [upload_filename rnd filename fl] w')) (u_id u)
           = ledger w (u_id u)
       \<and> length (ledger (snd (FilesHandler_postDeleteFiles S u' [upload_filename rnd filename fl] w')) (u_id u))
           = length (ledger w (u_id u))
       \<and> Math_sum (map f_size
            (ledger (snd (FilesHandler_postDeleteFiles S u' [upload_filename rnd filename fl] w')) (u_id u)))
           = Math_sum (map f_size (ledger w (u_id u)))"
proof -
  obtain fn fl' fs where chk: "upload_checks cfg statSync rnd u filename (Some fl) = Inr (fn, fl', fs)"
    and per: "upload_persist S u fn fl' fs w = (Inr Back, u', w')"
    using assms(2)
    by (auto simp add: FilesHandler_postUploadFile_def split: sum.splits)
  from upload_checks_Inr [OF chk]
  have fn: "fn = upload_filename rnd filename fl" and fs: "u_files u = Some fs"
    and fresh: "\<forall>i \<in> set fs. f_name i \<noteq> fn"
    by blast+
  from per obtain stp m where
    u': "u' = u\<lparr>u_files := Some (fs @ [new_record fn m])\<rparr>"
    and w': "w' = w\<lparr>store := stp, users := setById_files (users w) (u_id u) (fs @ [new_record fn m])\<rparr>"
    by (rule upload_persist_Inr)
  define r where "r = new_record fn m"
  have r: "f_name r = fn"
    by (simp add: r_def new_record_def)
  note u' = u' [folded r_def] and w' = w' [folded r_def]
  have stored: "users w' (u_id u) = Some u'"
    using assms(1) by (simp add: w' u' setById_files_def)
  have grown: "length (ledger w' (u_id u)) = Suc (length (ledger w (u_id u)))"
    using assms(1) fs stored by (simp add: ledger_def u')
  have flt: "filter (\<lambda>i. f_name i \<notin> set [fn]) (fs @ [r]) = fs"
    using fresh r by (induction fs) auto
  have "users (snd (FilesHandler_postDeleteFiles S u' [fn] w'))
          = setById_files (users w') (u_id u') (filter (\<lambda>i. f_name i \<notin> set [fn]) (fs @ [r]))"
    by (rule delete_users) (simp add: u')
  also have "\<dots> = setById_files (users w') (u_id u) fs"
    by (simp only: flt) (simp add: u')
  also have "\<dots> = (users w')(u_id u \<mapsto> u)"
    using stored fs by (simp add: setById_files_def u' user_files_same)
  also have "\<dots> = users w"
    using assms(1) by (auto simp add: w' setById_files_def)
  finally have restored: "users (snd (FilesHandler_postDeleteFiles S u' [fn] w')) = users w" .
  then have "ledger (snd (FilesHandler_postDeleteFiles S u' [fn] w')) (u_id u) = ledger w (u_id u)"
    by (simp add: ledger_def)
  with stored grown restored show ?thesis
    by (simp add: fn)
qed

theorem upload_then_delete_restores_ledger_witness:
  "users (world_P1 (P1 {PRIV_CREATE_FILE} [rec_of ''a.txt'' 400])) 1
     = Some (P1 {PRIV_CREATE_FILE} [rec_of ''a.txt'' 400])
   \<and> FilesHandler_postUploadFile (mem_storage (stat_const 300)) cfg_P1 (stat_const 300) ''r''
        (P1 {PRIV_CREATE_FILE} [rec_of ''a.txt'' 400]) ''c.txt'' (Some (tmp_file ''c.txt''))
        (world_P1 (P1 {PRIV_CREATE_FILE} [rec_of ''a.txt'' 400]))
     = (Inr Back, P1 {PRIV_CREATE_FILE} [rec_of ''a.txt'' 400, rec_of ''c.txt'' 300],
        \<lparr> users = [1 \<mapsto> P1 {PRIV_CREATE_FILE} [rec_of ''a.txt'' 400, rec_of ''c.txt'' 300]],
          store = [(''user/1/c.txt'', \<lparr> m_size = 300, m_lastModified = 0, m_etag = ''/tmp/up'' \<rparr>)],
          oplog = [] \<rparr>)
   \<and> ledger (snd (FilesHandler_postDeleteFiles (mem_storage (stat_const 300))
          (P1 {PRIV_CREATE_FILE} [rec_of ''a.txt'' 400, rec_of ''c.txt'' 300]) [''c.txt'']
          \<lparr> users = [1 \<mapsto> P1 {PRIV_CREATE_FILE} [rec_of ''a.txt'' 400, rec_of ''c.txt'' 300]],
            store = [(''user/1/c.txt'', \<lparr> m_size = 300, m_lastModified = 0, m_etag = ''/tmp/up'' \<rparr>)],
            oplog = [] \<rparr>)) 1
     = [rec_of ''a.txt'' 400]"
  using upload_then_delete_restores_ledger
     [where w = "world_P1 (P1 {PRIV_CREATE_FILE} [rec_of ''a.txt'' 400])"
      and u = "P1 {PRIV_CREATE_FILE} [rec_of ''a.txt'' 400]" and S = "mem_storage (stat_const 300)"
      and cfg = cfg_P1 and statSync = "stat_const 300" and rnd = "''r''" and filename = "''c.txt''"
      and fl = "tmp_file ''c.txt''"
      and u' = "P1 {PRIV_CREATE_FILE} [rec_of ''a.txt'' 400, rec_of ''c.txt'' 300]"
      and w' = "\<lparr> users = [1 \<mapsto> P1 {PRIV_CREATE_FILE} [rec_of ''a.txt'' 400, rec_of ''c.txt'' 300]],
          store = [(''user/1/c.txt'', \<lparr> m_size = 300, m_lastModified = 0, m_etag = ''/tmp/up'' \<rparr>)],
          oplog = [] \<rparr>"]
  by (simp add: fixtures FilesHandler_postUploadFile_def upload_checks_def upload_persist_def
        checkPriv_def hasPriv_def Math_sum_def Let_def upload_filename_def str_includes_def
        sublist_code user_path_def number_to_string_def decimal.simps digit_def mem_storage_def
        setById_files_def new_record_def ledger_def)

section \<open>The delete workflow\<close>

text \<open>
  C9. For a principal with file list \<open>fs\<close> that the identity store holds, and any list
  of names: after the delete handler the stored file list is \<open>fs\<close> without the records
  whose name is in the list, the other records in their order and unchanged; no other
  principal is touched. Names that match no record make no difference to the result. The
  handler fails only if the storage engine reports a failure, and the stored list is
  rewritten in that case as well.
\<close>

theorem delete_filters_ledger:
  assumes "u_files u = Some fs" and "users w (u_id u) = Some d"
  shows "users (snd (FilesHandler_postDeleteFiles S u files w)) (u_id u)
           = Some (d\<lparr>u_files := Some (filter (\<lambda>i. f_name i \<notin> set files) fs)\<rparr>)
       \<and> (\<forall>k. k \<noteq> u_id u \<longrightarrow>
             users (snd (FilesHandler_postDeleteFiles S u files w)) k = users w k)
       \<and> fst (FilesHandler_postDeleteFiles S u files w)
           = (case fst (storage_del S (map (\<lambda>t. user_path (u_id u) t) files) (u_id u) (store w)) of
                None \<Rightarrow> Inr Back
              | Some e \<Rightarrow> Inl e)
       \<and> (\<forall>extra. set extra \<inter> f_name ` set fs = {} \<longrightarrow>
             users (snd (FilesHandler_postDeleteFiles S u (files @ extra) w))
               = users (snd (FilesHandler_postDeleteFiles S u files w)))"
proof (intro conjI allI impI)
  show "users (snd (FilesHandler_postDeleteFiles S u files w)) (u_id u)
           = Some (d\<lparr>u_files := Some (filter (\<lambda>i. f_name i \<notin> set files) fs)\<rparr>)"
    using assms by (simp add: delete_users setById_files_def)
next
  fix k assume "k \<noteq> u_id u"
  then show "users (snd (FilesHandler_postDeleteFiles S u files w)) k = users w k"
    using assms by (simp add: delete_users setById_files_def)
next
  show "fst (FilesHandler_postDeleteFiles S u files w)
           = (case fst (storage_del S (map (\<lambda>t. user_path (u_id u) t) files) (u_id u) (store w)) of
                None \<Rightarrow> Inr Back
              | Some e \<Rightarrow> Inl e)"
    using assms(1)
    by (simp add: FilesHandler_postDeleteFiles_def Let_def split: prod.splits option.splits)
next
  fix extra assume ex: "set extra \<inter> f_name ` set fs = {}"
  have "filter (\<lambda>i. f_name i \<notin> set (files @ extra)) fs = filter (\<lambda>i. f_name i \<notin> set files) fs"
    using ex by (intro filter_cong) auto
  then show "users (snd (FilesHandler_postDeleteFiles S u (files @ extra) w))
               = users (snd (FilesHandler_postDeleteFiles S u files w))"
    using assms(1) by (simp only: delete_users)
qed

theorem delete_filters_ledger_witness:
  "u_files (P1 {PRIV_CREATE_FILE} [rec_of ''a.txt'' 400, rec_of ''b.txt'' 400])
     = Some [rec_of ''a.txt'' 400, rec_of ''b.txt'' 400]
   \<and> users (world_P1 (P1 {PRIV_CREATE_FILE} [rec_of ''a.txt'' 400, rec_of ''b.txt'' 400])) 1
     = Some (P1 {PRIV_CREATE_FILE} [rec_of ''a.txt'' 400, rec_of ''b.txt'' 400])
   \<and> users (snd (FilesHandler_postDeleteFiles (mem_storage (stat_const 0))
        (P1 {PRIV_CREATE_FILE} [rec_of ''a.txt'' 400, rec_of ''b.txt'' 400]) [''a.txt'', ''zzz'']
        (world_P1 (P1 {PRIV_CREATE_FILE} [rec_of ''a.txt'' 400, rec_of ''b.txt'' 400])))) 1
     = Some (P1 {PRIV_CREATE_FILE} [rec_of ''b.txt'' 400])
   \<and> fst (FilesHandler_postDeleteFiles (mem_storage (stat_const 0))
        (P1 {PRIV_CREATE_FILE} [rec_of ''a.txt'' 400, rec_of ''b.txt'' 400]) [''a.txt'', ''zzz'']
        (world_P1 (P1 {PRIV_CREATE_FILE} [rec_of ''a.txt'' 400, rec_of ''b.txt'' 400]))) = Inr Back"
proof -
  let ?u = "P1 {PRIV_CREATE_FILE} [rec_of ''a.txt'' 400, rec_of ''b.txt'' 400]"
  have h1: "u_files ?u = Some [rec_of ''a.txt'' 400, rec_of ''b.txt'' 400]"
    by (simp add: P1_def)
  have h2: "users (world_P1 ?u) (u_id ?u) = Some ?u"
    by (simp add: P1_def world_P1_def)
  note t = delete_filters_ledger [OF h1 h2, where S = "mem_storage (stat_const 0)"
      and files = "[''a.txt'', ''zzz'']"]
  from t have c1: "users (snd (FilesHandler_postDeleteFiles (mem_storage (stat_const 0)) ?u
        [''a.txt'', ''zzz''] (world_P1 ?u))) (u_id ?u)
      = Some (?u\<lparr>u_files := Some (filter (\<lambda>i. f_name i \<notin> set [''a.txt'', ''zzz''])
            [rec_of ''a.txt'' 400, rec_of ''b.txt'' 400])\<rparr>)"
    by (rule conjunct1)
  from t have c3: "fst (FilesHandler_postDeleteFiles (mem_storage (stat_const 0)) ?u
        [''a.txt'', ''zzz''] (world_P1 ?u))
      = (case fst (storage_del (mem_storage (stat_const 0))
                 (map (\<lambda>t. user_path (u_id ?u) t) [''a.txt'', ''zzz''])
                 (u_id ?u) (store (world_P1 ?u))) of
           None \<Rightarrow> Inr Back
         | Some e \<Rightarrow> Inl e)"
    by blast
  have u1: "u_id ?u = 1"
    by (simp add: P1_def)
  show ?thesis
    using h1 h2 c1 c3 unfolding u1
    by (simp add: P1_def rec_of_def mem_storage_def)
qed

section \<open>The download authorizer\<close>

text \<open>
  C6. A download request for \<open>(uid, filename)\<close>: when the identity store has no principal
  \<open>uid\<close> the handler fails with a not-found error. Otherwise it grants access if and only
  if the requester's id is \<open>uid\<close> or the owning principal holds the file-creation
  privilege, and it fails with a forbidden error otherwise. Granting access means: the
  answer is a redirect to the link signed for the path \<open>user/uid/filename\<close> (with the
  filename as disposition unless \<open>noDisposition\<close> is set), and the download of that path
  is logged with the size of the object, 0 when it has no metadata.
\<close>

theorem download_authorization:
  "(users w uid = None \<longrightarrow>
      FSDownloadHandler_get S u uid filename noDisposition w = (Inl (NotFoundError uid), w))
   \<and> (\<forall>t. users w uid = Some t \<longrightarrow>
        ((\<exists>r w'. FSDownloadHandler_get S u uid filename noDisposition w = (Inr r, w'))
           \<longleftrightarrow> (u_id u = uid \<or> hasPriv t PRIV_CREATE_FILE))
      \<and> (u_id u = uid \<or> hasPriv t PRIV_CREATE_FILE \<longrightarrow>
           FSDownloadHandler_get S u uid filename noDisposition w
             = (Inr \<lparr> dr_headers = [(''Cache-Control'', ''public'')],
                      dr_redirect = storage_signDownloadLink S (user_path uid filename)
                         (if noDisposition then None else Some filename) False ''user'' \<rparr>,
                w\<lparr>oplog := oplog w @
                     [(''download.file.user'', user_path uid filename,
                       (case storage_getMeta S (user_path uid filename) (store w) of
                          None \<Rightarrow> 0 | Some m \<Rightarrow> m_size m))]\<rparr>))
      \<and> (\<not> (u_id u = uid \<or> hasPriv t PRIV_CREATE_FILE) \<longrightarrow>
           FSDownloadHandler_get S u uid filename noDisposition w
             = (Inl (ForbiddenError ''Access denied''), w)))"
  by (auto simp add: FSDownloadHandler_get_def getById_def Let_def)

theorem download_authorization_witness:
  "users world_two 7 = None
   \<and> FSDownloadHandler_get (mem_storage (stat_const 0)) P2 7 ''a.txt'' False world_two
       = (Inl (NotFoundError 7), world_two)
   \<and> users world_two 1 = Some (P1 {} [rec_of ''a.txt'' 400])
   \<and> \<not> (u_id P2 = 1 \<or> hasPriv (P1 {} [rec_of ''a.txt'' 400]) PRIV_CREATE_FILE)
   \<and> FSDownloadHandler_get (mem_storage (stat_const 0)) P2 1 ''a.txt'' False world_two
       = (Inl (ForbiddenError ''Access denied''), world_two)
   \<and> FSDownloadHandler_get (mem_storage (stat_const 0)) (P1 {} [rec_of ''a.txt'' 400]) 1
        ''a.txt'' False world_two
       = (Inr \<lparr> dr_headers = [(''Cache-Control'', ''public'')],
                dr_redirect = ''/storage?target=user/1/a.txt&filename=a.txt'' \<rparr>,
          world_two\<lparr>oplog := [(''download.file.user'', ''user/1/a.txt'', 0)]\<rparr>)
   \<and> users world_two 2 = Some P2
   \<and> FSDownloadHandler_get (mem_storage (stat_const 0)) (P1 {} [rec_of ''a.txt'' 400]) 2
        ''b.txt'' True world_two
       = (Inr \<lparr> dr_headers = [(''Cache-Control'', ''public'')],
                dr_redirect = ''/storage?target=user/2/b.txt'' \<rparr>,
          world_two\<lparr>oplog := [(''download.file.user'', ''user/2/b.txt'', 0)]\<rparr>)"
  using download_authorization [where w = world_two and uid = 7 and S = "mem_storage (stat_const 0)"
      and u = P2 and filename = "''a.txt''" and noDisposition = False]
    download_authorization [where w = world_two and uid = 1 and S = "mem_storage (stat_const 0)"
      and u = P2 and filename = "''a.txt''" and noDisposition = False]
    download_authorization [where w = world_two and uid = 1 and S = "mem_storage (stat_const 0)"
      and u = "P1 {} [rec_of ''a.txt'' 400]" and filename = "''a.txt''" and noDisposition = False]
    download_authorization [where w = world_two and uid = 2 and S = "mem_storage (stat_const 0)"
      and u = "P1 {} [rec_of ''a.txt'' 400]" and filename = "''b.txt''" and noDisposition = True]
  by (simp add: world_two_def P1_def P2_def hasPriv_def mem_storage_def user_path_def
        number_to_string_def decimal.simps digit_def)

section \<open>The file list view\<close>

text \<open>
  C10. \<open>FilesHandler.get\<close> requires the file-creation privilege only when the file list
  of the principal is empty or absent. A principal with at least one record is answered
  with its own file list (sorted, as a page or as a rendered fragment) whether or not it
  holds the privilege; with an empty or absent list the handler answers in the same way
  if the principal holds the privilege and fails with a permission error if not.
\<close>

theorem files_view_privilege:
  "(file_count u \<noteq> 0 \<or> hasPriv u PRIV_CREATE_FILE \<longrightarrow>
      FilesHandler_get sortFiles renderHTML u pjax
        = Inr (if pjax
               then \<lparr> fr_template = [],
                      fr_body = Fragments [renderHTML ''partials/files.html'' (sortFiles (u_files u))] \<rparr>
               else \<lparr> fr_template = ''home_files.html'', fr_body = Files (sortFiles (u_files u)) \<rparr>))
   \<and> (file_count u = 0 \<and> \<not> hasPriv u PRIV_CREATE_FILE \<longrightarrow>
        FilesHandler_get sortFiles renderHTML u pjax = Inl (PrivilegeError PRIV_CREATE_FILE))
   \<and> (file_count u = 0 \<longleftrightarrow> u_files u = None \<or> u_files u = Some [])"
  by (auto simp add: FilesHandler_get_def checkPriv_def file_count_def Let_def split: option.splits)

theorem files_view_privilege_witness:
  "file_count (P1 {} [rec_of ''b.txt'' 1, rec_of ''a.txt'' 400]) \<noteq> 0
   \<and> \<not> hasPriv (P1 {} [rec_of ''b.txt'' 1, rec_of ''a.txt'' 400]) PRIV_CREATE_FILE
   \<and> FilesHandler_get (\<lambda>fs. case fs of None \<Rightarrow> [] | Some l \<Rightarrow> rev l) (\<lambda>t fs. t)
             (P1 {} [rec_of ''b.txt'' 1, rec_of ''a.txt'' 400]) False
       = Inr \<lparr> fr_template = ''home_files.html'',
               fr_body = Files [rec_of ''a.txt'' 400, rec_of ''b.txt'' 1] \<rparr>
   \<and> file_count (P1 {} []) = 0
   \<and> \<not> hasPriv (P1 {} []) PRIV_CREATE_FILE
   \<and> FilesHandler_get (\<lambda>fs. case fs of None \<Rightarrow> [] | Some l \<Rightarrow> rev l) (\<lambda>t fs. t) (P1 {} []) False
       = Inl (PrivilegeError PRIV_CREATE_FILE)"
  using files_view_privilege [where u = "P1 {} [rec_of ''b.txt'' 1, rec_of ''a.txt'' 400]" and pjax = False
      and sortFiles = "\<lambda>fs. case fs of None \<Rightarrow> [] | Some l \<Rightarrow> rev l" and renderHTML = "\<lambda>t fs. t"]
    files_view_privilege [where u = "P1 {} []" and pjax = False
      and sortFiles = "\<lambda>fs. case fs of None \<Rightarrow> [] | Some l \<Rightarrow> rev l" and renderHTML = "\<lambda>t fs. t"]
  by (simp add: P1_def file_count_def hasPriv_def)

end
